theory Spec2Isabelle
  imports Complex_Main
begin

section \<open>JavaScript numbers\<close>

text \<open>
  The service is TypeScript: every \<^verbatim>\<open>number\<close> is an IEEE 754 binary64 value. A finite
  double is modelled by the rational it denotes, next to the two infinities and NaN. The
  two zeros are identified: the program only compares numbers and prints them as JSON,
  and neither tells \<^verbatim>\<open>-0\<close> from \<^verbatim>\<open>0\<close>.
\<close>

datatype number = Finite rat | PosInf | NegInf | NaN

text \<open>Rounding a rational to the nearest integer, ties to the even one.\<close>

definition round_half_even :: "rat \<Rightarrow> int" where
  "round_half_even r =
     (let f = \<lfloor>r\<rfloor>; d = r - of_int f
      in if d < 1/2 then f else if 1/2 < d then f + 1 else if even f then f else f + 1)"

text \<open>
  The exponent of the unit in the last place of \<open>x\<close>: the least \<open>e\<close> from \<open>-1074\<close> (the
  subnormal spacing) up to \<open>971\<close> (the spacing below \<open>2^1024\<close>) with \<open>\<bar>x\<bar> < 2^(e + 53)\<close>.
\<close>

function ulp_exp :: "rat \<Rightarrow> int \<Rightarrow> int" where
  "ulp_exp x e = (if 971 \<le> e \<or> \<bar>x\<bar> < 2 powi (e + 53) then e else ulp_exp x (e + 1))"
  by pat_completeness auto
termination
  by (relation "measure (\<lambda>(x, e). nat (971 - e))") auto

declare ulp_exp.simps [simp del]

text \<open>
  Round to nearest, ties to even, with 53 significant bits; a result of magnitude
  \<open>2^1024\<close> or more is an infinity. Every arithmetic operation of the program rounds its
  exact result this way.
\<close>

definition fl :: "rat \<Rightarrow> number" where
  "fl x =
     (let e = ulp_exp x (- 1074);
          y = of_int (round_half_even (x / 2 powi e)) * 2 powi e
      in if 2 powi 1024 \<le> \<bar>y\<bar> then (if 0 < x then PosInf else NegInf) else Finite y)"

text \<open>A decimal literal of the source denotes the double nearest to it.\<close>

definition lit :: "rat \<Rightarrow> number" where
  "lit x = fl x"

fun num_neg :: "number \<Rightarrow> number" where
  "num_neg (Finite x) = Finite (- x)"
| "num_neg PosInf = NegInf"
| "num_neg NegInf = PosInf"
| "num_neg NaN = NaN"

fun num_add :: "number \<Rightarrow> number \<Rightarrow> number" where
  "num_add (Finite x) (Finite y) = fl (x + y)"
| "num_add NaN _ = NaN"
| "num_add _ NaN = NaN"
| "num_add PosInf NegInf = NaN"
| "num_add NegInf PosInf = NaN"
| "num_add PosInf _ = PosInf"
| "num_add _ PosInf = PosInf"
| "num_add NegInf _ = NegInf"
| "num_add _ NegInf = NegInf"

text \<open>
  The sign of a number and the infinity of a given sign, for the products and quotients
  that involve an infinity or a zero divisor (an indeterminate form has sign \<open>0\<close> and
  gives NaN).
\<close>

fun num_sign :: "number \<Rightarrow> int" where
  "num_sign (Finite x) = (if x < 0 then - 1 else if x = 0 then 0 else 1)"
| "num_sign PosInf = 1"
| "num_sign NegInf = - 1"
| "num_sign NaN = 0"

definition inf_of_sign :: "int \<Rightarrow> number" where
  "inf_of_sign s = (if 0 < s then PosInf else if s < 0 then NegInf else NaN)"

fun num_mul :: "number \<Rightarrow> number \<Rightarrow> number" where
  "num_mul (Finite x) (Finite y) = fl (x * y)"
| "num_mul a b = (if a = NaN \<or> b = NaN then NaN else inf_of_sign (num_sign a * num_sign b))"

text \<open>
  Division. With the two zeros identified, a zero divisor is taken as \<^verbatim>\<open>+0\<close>; every
  division of the program has the divisor 1000, 100 or 10000.
\<close>

fun num_div :: "number \<Rightarrow> number \<Rightarrow> number" where
  "num_div (Finite x) (Finite y) =
     (if y = 0 then inf_of_sign (num_sign (Finite x)) else fl (x / y))"
| "num_div NaN _ = NaN"
| "num_div _ NaN = NaN"
| "num_div (Finite x) _ = Finite 0"
| "num_div a (Finite y) = inf_of_sign (num_sign a * (if y < 0 then - 1 else 1))"
| "num_div _ _ = NaN"

text \<open>
  \<^verbatim>\<open>Math.round\<close>: the nearest integer, a tie going towards \<open>+\<infinity>\<close>. On a double the
  result is exact: a double of magnitude \<open>2^52\<close> or more is an integer already.
\<close>

fun Math_round :: "number \<Rightarrow> number" where
  "Math_round (Finite x) = Finite (of_int \<lfloor>x + 1/2\<rfloor>)"
| "Math_round n = n"

text \<open>The comparisons \<^verbatim>\<open><\<close>, \<^verbatim>\<open>>\<close>, \<^verbatim>\<open><=\<close>, \<^verbatim>\<open>>=\<close>: false as soon as one side is NaN.\<close>

fun num_lt :: "number \<Rightarrow> number \<Rightarrow> bool" where
  "num_lt (Finite x) (Finite y) = (x < y)"
| "num_lt NaN _ = False"
| "num_lt _ NaN = False"
| "num_lt _ NegInf = False"
| "num_lt PosInf _ = False"
| "num_lt NegInf _ = True"
| "num_lt _ PosInf = True"

definition num_gt :: "number \<Rightarrow> number \<Rightarrow> bool" where
  "num_gt a b = num_lt b a"

definition num_le :: "number \<Rightarrow> number \<Rightarrow> bool" where
  "num_le a b = (a \<noteq> NaN \<and> b \<noteq> NaN \<and> \<not> num_lt b a)"

definition num_ge :: "number \<Rightarrow> number \<Rightarrow> bool" where
  "num_ge a b = num_le b a"

section \<open>JavaScript strings\<close>

text \<open>
  A string is a list of 8-bit characters: the model covers the strings whose code
  units are below 256 (Latin-1). \<^verbatim>\<open>toLowerCase\<close> on these maps
  \<^verbatim>\<open>A-Z\<close> and the accented capitals \<^verbatim>\<open>U+00C0-U+00DE\<close> (but not the sign \<^verbatim>\<open>U+00D7\<close>)
  32 places up and leaves every other character alone.
\<close>

definition lower_char :: "char \<Rightarrow> char" where
  "lower_char c =
     (let n = (of_char c :: nat)
      in if (65 \<le> n \<and> n \<le> 90) \<or> (192 \<le> n \<and> n \<le> 222 \<and> n \<noteq> 215)
         then char_of (n + 32) else c)"

definition toLowerCase :: "string \<Rightarrow> string" where
  "toLowerCase s = map lower_char s"

text \<open>\<^verbatim>\<open>s.startsWith(p)\<close> and \<^verbatim>\<open>s.includes(p)\<close>: \<open>p\<close> occurs in \<open>s\<close> as a contiguous run.\<close>

fun starts_with :: "string \<Rightarrow> string \<Rightarrow> bool" where
  "starts_with s [] = True"
| "starts_with [] (p # ps) = False"
| "starts_with (c # cs) (p # ps) = (c = p \<and> starts_with cs ps)"

fun str_includes :: "string \<Rightarrow> string \<Rightarrow> bool" where
  "str_includes [] p = (p = [])"
| "str_includes (c # cs) p = (starts_with (c # cs) p \<or> str_includes cs p)"

section \<open>The rate calculator\<close>

text \<open>
  An entry of the base rate table, \<^verbatim>\<open>{ rate, unit }\<close>, and the interfaces
  \<^verbatim>\<open>UtilityRate\<close> and \<^verbatim>\<open>WeatherData\<close>. The field \<open>unit\<close> of an entry is written
  \<open>RateEntry.unit\<close> where it has to be told from the one of a quote.
\<close>

record RateEntry =
  rate :: number
  unit :: string

record UtilityRate =
  utility :: string
  baseRate :: number
  unit :: string
  weatherAdjustment :: number
  adjustedRate :: number
  reason :: string

record WeatherData =
  city :: string
  temperature :: number
  conditions :: string
  humidity :: number

text \<open>The table \<^verbatim>\<open>baseRates\<close>.\<close>

record BaseRates =
  electricity :: RateEntry
  naturalGas :: RateEntry
  water :: RateEntry
  solar :: RateEntry

definition baseRates :: BaseRates where
  "baseRates =
     \<lparr>electricity = \<lparr>rate = lit (12/100), unit = ''kWh''\<rparr>,
      naturalGas = \<lparr>rate = lit (105/100), unit = ''therm''\<rparr>,
      water = \<lparr>rate = lit (4/1000), unit = ''gallon''\<rparr>,
      solar = \<lparr>rate = lit (8/100), unit = ''kWh''\<rparr>\<rparr>"

text \<open>
  \<^verbatim>\<open>calculateRates(weather)\<close>: the four blocks of the source in their order, each an
  \<^verbatim>\<open>if\<close> chain that picks the adjustment and the reason, followed by the \<^verbatim>\<open>push\<close> of
  the quote. The adjusted rate is \<^verbatim>\<open>Math.round((rate + adjust) * 10^p) / 10^p\<close>, all in
  double arithmetic.
\<close>

definition calculateRates :: "WeatherData \<Rightarrow> UtilityRate list" where
  "calculateRates weather =
     (let rates = [];
          temp = temperature weather;
          conditions = toLowerCase (conditions weather);
          humidity = humidity weather;
          (elecAdjust, elecReason) =
            (if num_gt temp (lit 85) then (lit (4/100), ''High cooling demand due to heat'')
             else if num_lt temp (lit 40) then (lit (3/100), ''Increased heating demand'')
             else if num_ge temp (lit 65) \<and> num_le temp (lit 75)
               then (num_neg (lit (2/100)), ''Low HVAC demand - mild weather'')
             else (lit 0, ''Standard rate''));
          rates = rates @
            [\<lparr>utility = ''Electricity'',
              baseRate = rate (electricity baseRates),
              UtilityRate.unit = RateEntry.unit (electricity baseRates),
              weatherAdjustment = elecAdjust,
              adjustedRate =
                num_div (Math_round (num_mul (num_add (rate (electricity baseRates)) elecAdjust)
                  (lit 1000))) (lit 1000),
              reason = elecReason\<rparr>];
          (gasAdjust, gasReason) =
            (if num_lt temp (lit 32) then (lit (45/100), ''Peak heating season - extreme cold'')
             else if num_lt temp (lit 50) then (lit (25/100), ''Heating demand increased'')
             else if num_gt temp (lit 80) then (num_neg (lit (15/100)), ''Reduced heating demand'')
             else (lit 0, ''Standard rate''));
          rates = rates @
            [\<lparr>utility = ''Natural Gas'',
              baseRate = rate (naturalGas baseRates),
              UtilityRate.unit = RateEntry.unit (naturalGas baseRates),
              weatherAdjustment = gasAdjust,
              adjustedRate =
                num_div (Math_round (num_mul (num_add (rate (naturalGas baseRates)) gasAdjust)
                  (lit 100))) (lit 100),
              reason = gasReason\<rparr>];
          (waterAdjust, waterReason) =
            (if num_lt humidity (lit 30) \<and> num_gt temp (lit 80)
               then (lit (2/1000), ''Drought surcharge - conservation pricing'')
             else if str_includes conditions ''rain''
               then (num_neg (lit (1/1000)), ''Reduced irrigation demand'')
             else (lit 0, ''Standard rate''));
          rates = rates @
            [\<lparr>utility = ''Water'',
              baseRate = rate (water baseRates),
              UtilityRate.unit = RateEntry.unit (water baseRates),
              weatherAdjustment = waterAdjust,
              adjustedRate =
                num_div (Math_round (num_mul (num_add (rate (water baseRates)) waterAdjust)
                  (lit 10000))) (lit 10000),
              reason = waterReason\<rparr>];
          (solarAdjust, solarReason) =
            (if str_includes conditions ''sunny'' \<or> str_includes conditions ''clear''
               then (lit (3/100), ''Peak solar production - premium buyback'')
             else if str_includes conditions ''cloud'' \<or> str_includes conditions ''overcast''
               then (num_neg (lit (2/100)), ''Reduced solar output'')
             else if str_includes conditions ''rain'' \<or> str_includes conditions ''storm''
               then (num_neg (lit (4/100)), ''Minimal solar production'')
             else (lit 0, ''Standard buyback rate''));
          rates = rates @
            [\<lparr>utility = ''Solar Buyback'',
              baseRate = rate (solar baseRates),
              UtilityRate.unit = RateEntry.unit (solar baseRates),
              weatherAdjustment = solarAdjust,
              adjustedRate =
                num_div (Math_round (num_mul (num_add (rate (solar baseRates)) solarAdjust)
                  (lit 1000))) (lit 1000),
              reason = solarReason\<rparr>]
      in rates)"

text \<open>
  The same function with the state of the module made explicit. The only object of
  the module that a call could change is the table: \<^verbatim>\<open>baseRates\<close> is a \<^verbatim>\<open>const\<close> binding
  to an object whose fields stay writable. A call takes the table as it stands when it
  starts and gives back, with its quotes, the table as it stands when it returns; the
  array \<^verbatim>\<open>rates\<close> is created afresh by each call. \<open>calls\<close> runs one call after the other
  on a list of readings, each call in the state that the one before it left.
\<close>

definition calculateRates_in :: "BaseRates \<Rightarrow> WeatherData \<Rightarrow> UtilityRate list \<times> BaseRates" where
  "calculateRates_in table weather =
     (let rates = [];
          temp = temperature weather;
          conditions = toLowerCase (conditions weather);
          humidity = humidity weather;
          (elecAdjust, elecReason) =
            (if num_gt temp (lit 85) then (lit (4/100), ''High cooling demand due to heat'')
             else if num_lt temp (lit 40) then (lit (3/100), ''Increased heating demand'')
             else if num_ge temp (lit 65) \<and> num_le temp (lit 75)
               then (num_neg (lit (2/100)), ''Low HVAC demand - mild weather'')
             else (lit 0, ''Standard rate''));
          rates = rates @
            [\<lparr>utility = ''Electricity'',
              baseRate = rate (electricity table),
              UtilityRate.unit = RateEntry.unit (electricity table),
              weatherAdjustment = elecAdjust,
              adjustedRate =
                num_div (Math_round (num_mul (num_add (rate (electricity table)) elecAdjust)
                  (lit 1000))) (lit 1000),
              reason = elecReason\<rparr>];
          (gasAdjust, gasReason) =
            (if num_lt temp (lit 32) then (lit (45/100), ''Peak heating season - extreme cold'')
             else if num_lt temp (lit 50) then (lit (25/100), ''Heating demand increased'')
             else if num_gt temp (lit 80) then (num_neg (lit (15/100)), ''Reduced heating demand'')
             else (lit 0, ''Standard rate''));
          rates = rates @
            [\<lparr>utility = ''Natural Gas'',
              baseRate = rate (naturalGas table),
              UtilityRate.unit = RateEntry.unit (naturalGas table),
              weatherAdjustment = gasAdjust,
              adjustedRate =
                num_div (Math_round (num_mul (num_add (rate (naturalGas table)) gasAdjust)
                  (lit 100))) (lit 100),
              reason = gasReason\<rparr>];
          (waterAdjust, waterReason) =
            (if num_lt humidity (lit 30) \<and> num_gt temp (lit 80)
               then (lit (2/1000), ''Drought surcharge - conservation pricing'')
             else if str_includes conditions ''rain''
               then (num_neg (lit (1/1000)), ''Reduced irrigation demand'')
             else (lit 0, ''Standard rate''));
          rates = rates @
            [\<lparr>utility = ''Water'',
              baseRate = rate (water table),
              UtilityRate.unit = RateEntry.unit (water table),
              weatherAdjustment = waterAdjust,
              adjustedRate =
                num_div (Math_round (num_mul (num_add (rate (water table)) waterAdjust)
                  (lit 10000))) (lit 10000),
              reason = waterReason\<rparr>];
          (solarAdjust, solarReason) =
            (if str_includes conditions ''sunny'' \<or> str_includes conditions ''clear''
               then (lit (3/100), ''Peak solar production - premium buyback'')
             else if str_includes conditions ''cloud'' \<or> str_includes conditions ''overcast''
               then (num_neg (lit (2/100)), ''Reduced solar output'')
             else if str_includes conditions ''rain'' \<or> str_includes conditions ''storm''
               then (num_neg (lit (4/100)), ''Minimal solar production'')
             else (lit 0, ''Standard buyback rate''));
          rates = rates @
            [\<lparr>utility = ''Solar Buyback'',
              baseRate = rate (solar table),
              UtilityRate.unit = RateEntry.unit (solar table),
              weatherAdjustment = solarAdjust,
              adjustedRate =
                num_div (Math_round (num_mul (num_add (rate (solar table)) solarAdjust)
                  (lit 1000))) (lit 1000),
              reason = solarReason\<rparr>]
      in (rates, table))"


fun calls :: "BaseRates \<Rightarrow> WeatherData list \<Rightarrow> UtilityRate list list \<times> BaseRates" where
  "calls table [] = ([], table)"
| "calls table (w # ws) =
     (let (rates, table') = calculateRates_in table w;
          (rest, table'') = calls table' ws
      in (rates # rest, table''))"

text \<open>
  The rounding rule as the specification words it, to compare the code with:
  \<^verbatim>\<open>adjustedRate = round(baseRate + weatherAdjustment)\<close> to \<open>p\<close> decimals. The sum is
  taken exactly, rounded to the nearest multiple of \<open>10^-p\<close> (a half goes up), and the
  result is the double that this decimal denotes.
\<close>

fun round_decimals :: "nat \<Rightarrow> number \<Rightarrow> number \<Rightarrow> number" where
  "round_decimals p (Finite x) (Finite y) = lit (of_int (round ((x + y) * 10 ^ p)) / 10 ^ p)"
| "round_decimals p _ _ = NaN"

section \<open>The weather client\<close>

text \<open>
  What \<^verbatim>\<open>JSON.parse\<close> returns: a JSON value. An object is the list of its own
  properties, one entry per key.
\<close>

datatype json =
  JNull
| JBool bool
| JNum number
| JStr string
| JArr "json list"
| JObj "(string \<times> json) list"

text \<open>
  \<^verbatim>\<open>Number::toString\<close>, which \<^verbatim>\<open>new Error(message)\<close> applies to a numeric message: the
  shortest decimal digits \<open>s\<close> (there are \<open>k\<close> of them) and decimal exponent \<open>n\<close> with
  \<open>s * 10^(n - k)\<close> rounding to the number, the closest such digits when several are
  as short, laid out as the language does.
\<close>

function show_int :: "int \<Rightarrow> string" where
  "show_int n =
     (if n < 10 then [char_of (48 + n)] else show_int (n div 10) @ [char_of (48 + n mod 10)])"
  by pat_completeness auto
termination
  by (relation "measure nat") auto

declare show_int.simps [simp del]

function dec_exp :: "rat \<Rightarrow> int \<Rightarrow> int" where
  "dec_exp x n = (if 309 \<le> n \<or> x < 10 powi n then n else dec_exp x (n + 1))"
  by pat_completeness auto
termination
  by (relation "measure (\<lambda>(x, n). nat (309 - n))") auto

declare dec_exp.simps [simp del]

definition digit_candidates :: "rat \<Rightarrow> int \<Rightarrow> (int \<times> int) list" where
  "digit_candidates x k =
     [(n, s).
        n \<leftarrow> [dec_exp x (- 324), dec_exp x (- 324) + 1],
        s \<leftarrow> [\<lfloor>x / 10 powi (n - k)\<rfloor>, \<lfloor>x / 10 powi (n - k)\<rfloor> + 1],
        10 powi (k - 1) \<le> (of_int s :: rat) \<and> of_int s < (10::rat) powi k
          \<and> fl (of_int s * 10 powi (n - k)) = Finite x]"

definition closer :: "rat \<Rightarrow> int \<Rightarrow> int \<times> int \<Rightarrow> int \<times> int \<Rightarrow> int \<times> int" where
  "closer x k a b =
     (let da = \<bar>of_int (snd a) * 10 powi (fst a - k) - x\<bar>;
          db = \<bar>of_int (snd b) * 10 powi (fst b - k) - x\<bar>
      in if db < da \<or> (db = da \<and> even (snd b) \<and> odd (snd a)) then b else a)"

fun shortest_digits :: "rat \<Rightarrow> int list \<Rightarrow> (int \<times> int \<times> int) option" where
  "shortest_digits x [] = None"
| "shortest_digits x (k # ks) =
     (case digit_candidates x k of
        [] \<Rightarrow> shortest_digits x ks
      | c # cs \<Rightarrow> (let (n, s) = foldl (closer x k) c cs in Some (n, k, s)))"

definition layout :: "int \<Rightarrow> int \<Rightarrow> int \<Rightarrow> string" where
  "layout n k s =
     (let digits = show_int s;
          exponent = (if n - 1 < 0 then ''-'' else ''+'') @ show_int \<bar>n - 1\<bar>
      in if k \<le> n \<and> n \<le> 21 then digits @ replicate (nat (n - k)) (CHR ''0'')
         else if 0 < n \<and> n \<le> 21 then take (nat n) digits @ ''.'' @ drop (nat n) digits
         else if - 6 < n \<and> n \<le> 0 then ''0.'' @ replicate (nat (- n)) (CHR ''0'') @ digits
         else if k = 1 then digits @ ''e'' @ exponent
         else take 1 digits @ ''.'' @ drop 1 digits @ ''e'' @ exponent)"

definition positive_toString :: "rat \<Rightarrow> string" where
  "positive_toString x =
     (case shortest_digits x [1 .. 21] of
        Some (n, k, s) \<Rightarrow> layout n k s
      | None \<Rightarrow> [])"

fun Number_toString :: "number \<Rightarrow> string" where
  "Number_toString NaN = ''NaN''"
| "Number_toString PosInf = ''Infinity''"
| "Number_toString NegInf = ''-Infinity''"
| "Number_toString (Finite x) =
     (if x = 0 then ''0''
      else if x < 0 then ''-'' @ positive_toString (- x)
      else positive_toString x)"

text \<open>
  \<^verbatim>\<open>ToString\<close> of a parsed value; \<open>None\<close> is the TypeError of a value that has no
  primitive. An object that \<^verbatim>\<open>JSON.parse\<close> built prints as \<^verbatim>\<open>[object Object]\<close>, unless
  it has a key \<^verbatim>\<open>toString\<close> of its own: that shadows the inherited method with a value
  that cannot be called, and the inherited \<^verbatim>\<open>valueOf\<close> gives back the object. An array
  prints its elements joined by commas, \<^verbatim>\<open>null\<close> as the empty string.
\<close>

fun join_comma :: "string list \<Rightarrow> string" where
  "join_comma [] = []"
| "join_comma [s] = s"
| "join_comma (s # t # ss) = s @ '','' @ join_comma (t # ss)"

fun all_some :: "'a option list \<Rightarrow> 'a list option" where
  "all_some [] = Some []"
| "all_some (None # xs) = None"
| "all_some (Some x # xs) = (case all_some xs of None \<Rightarrow> None | Some ys \<Rightarrow> Some (x # ys))"

fun ToString :: "json \<Rightarrow> string option" where
  "ToString JNull = Some ''null''"
| "ToString (JBool b) = Some (if b then ''true'' else ''false'')"
| "ToString (JNum n) = Some (Number_toString n)"
| "ToString (JStr s) = Some s"
| "ToString (JArr xs) =
     map_option join_comma
       (all_some (map (\<lambda>x. if x = JNull then Some [] else ToString x) xs))"
| "ToString (JObj props) =
     (if ''toString'' \<in> fst ` set props then None else Some ''[object Object]'')"

text \<open>
  Reading \<^verbatim>\<open>parsed.error\<close>. On \<^verbatim>\<open>null\<close> the read throws a TypeError (\<open>Inl\<close>); on an
  object it is the property of that name, \<^verbatim>\<open>undefined\<close> (\<open>None\<close>) when there is none;
  a boolean, a number, a string and an array have no property \<^verbatim>\<open>error\<close>.
\<close>

datatype exn = SyntaxError | TypeError

fun get_error :: "json \<Rightarrow> exn + json option" where
  "get_error JNull = Inl TypeError"
| "get_error (JObj props) = Inr (map_of props ''error'')"
| "get_error _ = Inr None"

text \<open>\<^verbatim>\<open>ToBoolean\<close>, the test of \<^verbatim>\<open>if (parsed.error)\<close>.\<close>

fun ToBoolean :: "json option \<Rightarrow> bool" where
  "ToBoolean None = False"
| "ToBoolean (Some JNull) = False"
| "ToBoolean (Some (JBool b)) = b"
| "ToBoolean (Some (JNum n)) = (n \<noteq> Finite 0 \<and> n \<noteq> NaN)"
| "ToBoolean (Some (JStr s)) = (s \<noteq> [])"
| "ToBoolean (Some (JArr xs)) = True"
| "ToBoolean (Some (JObj props)) = True"

text \<open>\<^verbatim>\<open>new Error(message)\<close>: an error object is its message.\<close>

datatype Error = Error string

fun new_Error :: "json option \<Rightarrow> exn + Error" where
  "new_Error None = Inr (Error [])"
| "new_Error (Some v) = (case ToString v of None \<Rightarrow> Inl TypeError | Some m \<Rightarrow> Inr (Error m))"

text \<open>
  How the promise of \<^verbatim>\<open>fetchWeather\<close> settles. The \<^verbatim>\<open>try\<close> block of the \<^verbatim>\<open>end\<close>
  listener takes what \<^verbatim>\<open>JSON.parse(data)\<close> gave, \<open>None\<close> standing for its SyntaxError on
  a body that is not JSON; it settles the promise or throws. The \<^verbatim>\<open>catch\<close> turns every
  exception into the rejection \<^verbatim>\<open>Invalid response from weather service\<close>. The resolved
  value is the parsed body as it is: nothing checks it against \<^verbatim>\<open>WeatherData\<close>.
\<close>

datatype settled = Resolved json | Rejected Error

definition try_block :: "json option \<Rightarrow> exn + settled" where
  "try_block parse_result =
     (case parse_result of
        None \<Rightarrow> Inl SyntaxError
      | Some parsed \<Rightarrow>
          (case get_error parsed of
             Inl e \<Rightarrow> Inl e
           | Inr err \<Rightarrow>
               if ToBoolean err
               then (case new_Error err of Inl e \<Rightarrow> Inl e | Inr e \<Rightarrow> Inr (Rejected e))
               else Inr (Resolved parsed)))"

definition on_end :: "json option \<Rightarrow> settled" where
  "on_end parse_result =
     (case try_block parse_result of
        Inl e \<Rightarrow> Rejected (Error ''Invalid response from weather service'')
      | Inr s \<Rightarrow> s)"

text \<open>
  The request either emits \<^verbatim>\<open>error\<close> (the transport failed: the promise is rejected
  with that error) or delivers a whole body and \<^verbatim>\<open>end\<close>.
\<close>

datatype response = ErrorEvent Error | EndEvent "json option"

fun fetchWeather :: "response \<Rightarrow> settled" where
  "fetchWeather (ErrorEvent e) = Rejected e"
| "fetchWeather (EndEvent parse_result) = on_end parse_result"

text \<open>
  A body that has an \<^verbatim>\<open>error\<close> field, in the words of the specification: an object with
  a property of that name, whatever its value.
\<close>

fun has_error_field :: "json \<Rightarrow> bool" where
  "has_error_field (JObj props) = (''error'' \<in> fst ` set props)"
| "has_error_field _ = False"

section \<open>The rate calculator on a resolved value\<close>

text \<open>
  \<^verbatim>\<open>fetchWeather\<close> resolves with whatever JSON value the body held, and the handlers pass
  it to \<^verbatim>\<open>calculateRates\<close> as it is. This section says what the function does then: the
  reads of its properties, the method call on \<^verbatim>\<open>weather.conditions\<close> and the coercions of
  the comparisons.

  A property read on a value other than \<^verbatim>\<open>null\<close>, for a name that no prototype
  defines (\<^verbatim>\<open>city\<close>, \<^verbatim>\<open>temperature\<close>, \<^verbatim>\<open>conditions\<close>, \<^verbatim>\<open>humidity\<close>): the property of an
  object, \<^verbatim>\<open>undefined\<close> (\<open>None\<close>) on anything else.
\<close>

fun get_prop :: "json \<Rightarrow> string \<Rightarrow> json option" where
  "get_prop (JObj props) name = map_of props name"
| "get_prop _ name = None"

text \<open>
  \<^verbatim>\<open>StringToNumber\<close>, the value of a string in a comparison with a number. White space
  around the literal is dropped; the empty string is 0; a decimal literal with an
  optional sign, \<^verbatim>\<open>Infinity\<close>, or an unsigned binary, octal or hexadecimal integer is
  its value, rounded to a double; anything else is NaN.
\<close>

definition is_space :: "char \<Rightarrow> bool" where
  "is_space c = ((of_char c :: nat) \<in> {9, 10, 11, 12, 13, 32, 160})"

definition trim :: "string \<Rightarrow> string" where
  "trim s = rev (dropWhile is_space (rev (dropWhile is_space s)))"

definition digit_of :: "char \<Rightarrow> nat" where
  "digit_of c =
     (let n = (of_char c :: nat)
      in if 48 \<le> n \<and> n \<le> 57 then n - 48
         else if 97 \<le> n \<and> n \<le> 102 then n - 87
         else if 65 \<le> n \<and> n \<le> 70 then n - 55
         else 16)"

fun digits_value :: "nat \<Rightarrow> string \<Rightarrow> int \<Rightarrow> int option" where
  "digits_value b [] acc = Some acc"
| "digits_value b (c # cs) acc =
     (if digit_of c < b then digits_value b cs (acc * int b + int (digit_of c)) else None)"

definition integer_of :: "nat \<Rightarrow> string \<Rightarrow> int option" where
  "integer_of b ds = (if ds = [] then None else digits_value b ds 0)"

fun exponent_part :: "string \<Rightarrow> int option" where
  "exponent_part [] = Some 0"
| "exponent_part (c # cs) =
     (if c = CHR ''e'' \<or> c = CHR ''E'' then
        (case cs of
           [] \<Rightarrow> None
         | d # ds \<Rightarrow>
             if d = CHR ''+'' then integer_of 10 ds
             else if d = CHR ''-'' then map_option uminus (integer_of 10 ds)
             else integer_of 10 (d # ds))
      else None)"

definition unsigned_decimal :: "string \<Rightarrow> number option" where
  "unsigned_decimal s =
     (if s = ''Infinity'' then Some PosInf
      else
        let is_digit = (\<lambda>c. digit_of c < 10);
            whole = takeWhile is_digit s;
            rest = dropWhile is_digit s;
            dot = (rest \<noteq> [] \<and> hd rest = CHR ''.'');
            fraction = (if dot then takeWhile is_digit (tl rest) else []);
            rest' = (if dot then dropWhile is_digit (tl rest) else rest)
        in if whole = [] \<and> fraction = [] then None
           else
             (case (integer_of 10 (whole @ fraction), exponent_part rest') of
                (Some m, Some ex) \<Rightarrow> Some (fl (of_int m * 10 powi (ex - int (length fraction))))
              | _ \<Rightarrow> None))"

definition numeric_literal :: "string \<Rightarrow> number option" where
  "numeric_literal s =
     (case s of
        c # d # ds \<Rightarrow>
          if c = CHR ''0'' \<and> (d = CHR ''x'' \<or> d = CHR ''X'')
            then map_option (\<lambda>m. fl (of_int m)) (integer_of 16 ds)
          else if c = CHR ''0'' \<and> (d = CHR ''o'' \<or> d = CHR ''O'')
            then map_option (\<lambda>m. fl (of_int m)) (integer_of 8 ds)
          else if c = CHR ''0'' \<and> (d = CHR ''b'' \<or> d = CHR ''B'')
            then map_option (\<lambda>m. fl (of_int m)) (integer_of 2 ds)
          else if c = CHR ''+'' then unsigned_decimal (d # ds)
          else if c = CHR ''-'' then map_option num_neg (unsigned_decimal (d # ds))
          else unsigned_decimal s
      | _ \<Rightarrow> unsigned_decimal s)"

definition StringToNumber :: "string \<Rightarrow> number" where
  "StringToNumber s =
     (if trim s = [] then Finite 0
      else case numeric_literal (trim s) of Some n \<Rightarrow> n | None \<Rightarrow> NaN)"

text \<open>
  \<^verbatim>\<open>ToNumber\<close> of what a property read gave, as a comparison with a number literal
  applies it. An array or an object goes through its primitive first, which is its
  \<^verbatim>\<open>ToString\<close> (the inherited \<^verbatim>\<open>valueOf\<close> gives back the value itself), and that can
  throw.
\<close>

fun ToNumber :: "json option \<Rightarrow> exn + number" where
  "ToNumber None = Inr NaN"
| "ToNumber (Some JNull) = Inr (Finite 0)"
| "ToNumber (Some (JBool b)) = Inr (Finite (if b then 1 else 0))"
| "ToNumber (Some (JNum n)) = Inr n"
| "ToNumber (Some (JStr s)) = Inr (StringToNumber s)"
| "ToNumber (Some v) =
     (case ToString v of None \<Rightarrow> Inl TypeError | Some s \<Rightarrow> Inr (StringToNumber s))"

text \<open>
  \<^verbatim>\<open>calculateRates(weather)\<close> on a resolved value. \<^verbatim>\<open>weather.conditions.toLowerCase()\<close>
  throws a TypeError unless the property is a string: \<^verbatim>\<open>undefined\<close> and \<^verbatim>\<open>null\<close> have
  no properties, and no other value has a method of that name. Each comparison turns
  \<^verbatim>\<open>temp\<close> or \<^verbatim>\<open>humidity\<close> into a number; \<^verbatim>\<open>temp > 85\<close> and \<^verbatim>\<open>humidity < 30\<close> are
  evaluated on every path, so a value without a primitive throws as well. Otherwise
  the function goes on as on the reading with these numbers and this string; it never
  reads \<^verbatim>\<open>weather.city\<close>.
\<close>

definition calculateRates_json :: "json \<Rightarrow> exn + UtilityRate list" where
  "calculateRates_json weather =
     (case get_prop weather ''conditions'' of
        Some (JStr s) \<Rightarrow>
          (case ToNumber (get_prop weather ''temperature'') of
             Inl e \<Rightarrow> Inl e
           | Inr t \<Rightarrow>
               (case ToNumber (get_prop weather ''humidity'') of
                  Inl e \<Rightarrow> Inl e
                | Inr h \<Rightarrow>
                    Inr (calculateRates
                      \<lparr>city = [], temperature = t, conditions = s, humidity = h\<rparr>)))
      | _ \<Rightarrow> Inl TypeError)"

text \<open>
  A resolved value that is well typed, a \<^verbatim>\<open>WeatherData\<close>: an object whose four
  properties have the declared types.
\<close>

definition as_reading :: "json \<Rightarrow> WeatherData option" where
  "as_reading v =
     (case (get_prop v ''city'', get_prop v ''temperature'', get_prop v ''conditions'',
            get_prop v ''humidity'') of
        (Some (JStr c), Some (JNum t), Some (JStr s), Some (JNum h)) \<Rightarrow>
          Some \<lparr>city = c, temperature = t, conditions = s, humidity = h\<rparr>
      | _ \<Rightarrow> None)"

section \<open>The aggregation handler\<close>

text \<open>
  \<^verbatim>\<open>GET /api/rates\<close>. The handler awaits \<^verbatim>\<open>fetchWeather(city)\<close> for one city after the
  other. \<open>upstream city\<close> is how the request for that city goes: \<open>Some\<close> of the event
  that settles the promise, or \<open>None\<close> when neither \<^verbatim>\<open>error\<close> nor \<^verbatim>\<open>end\<close> ever comes, so
  that the \<^verbatim>\<open>await\<close> never returns and the handler never answers. The \<^verbatim>\<open>try\<close> block
  of the loop body holds the fetch, the call of \<^verbatim>\<open>calculateRates\<close> and the \<^verbatim>\<open>push\<close>;
  the empty \<^verbatim>\<open>catch\<close> swallows a rejection of the fetch and an exception of
  \<^verbatim>\<open>calculateRates\<close> alike. \<open>now\<close> is \<^verbatim>\<open>new Date().toISOString()\<close>.
\<close>

record QuoteWeather =
  weather_temperature :: "json option"
  weather_conditions :: "json option"

record CityQuote =
  quote_city :: "json option"
  quote_weather :: QuoteWeather
  quote_rates :: "UtilityRate list"

definition cities :: "string list" where
  "cities = [''new-york'', ''london'', ''tokyo'', ''sydney'', ''paris'']"

text \<open>
  The \<^verbatim>\<open>try\<close> block for one city: the entry that it pushes, or \<open>None\<close> when an
  exception ends it before the \<^verbatim>\<open>push\<close>.
\<close>

definition try_city :: "response \<Rightarrow> CityQuote option" where
  "try_city r =
     (case fetchWeather r of
        Rejected e \<Rightarrow> None
      | Resolved weather \<Rightarrow>
          (case calculateRates_json weather of
             Inl e \<Rightarrow> None
           | Inr rates \<Rightarrow>
               Some
                 \<lparr>quote_city = get_prop weather ''city'',
                  quote_weather =
                    \<lparr>weather_temperature = get_prop weather ''temperature'',
                     weather_conditions = get_prop weather ''conditions''\<rparr>,
                  quote_rates = rates\<rparr>))"

fun rates_loop ::
  "(string \<Rightarrow> response option) \<Rightarrow> string list \<Rightarrow> CityQuote list \<Rightarrow> CityQuote list option"
  where
  "rates_loop upstream [] quotes = Some quotes"
| "rates_loop upstream (c # rest) quotes =
     (case upstream c of
        None \<Rightarrow> None
      | Some r \<Rightarrow>
          (case try_city r of
             None \<Rightarrow> rates_loop upstream rest quotes
           | Some entry \<Rightarrow> rates_loop upstream rest (quotes @ [entry])))"

record RatesResponse =
  quotes :: "CityQuote list"
  generatedAt :: string

definition api_rates :: "string \<Rightarrow> (string \<Rightarrow> response option) \<Rightarrow> RatesResponse option" where
  "api_rates now upstream =
     map_option (\<lambda>qs. \<lparr>quotes = qs, generatedAt = now\<rparr>) (rates_loop upstream cities [])"

text \<open>A fetch fails when its promise is rejected.\<close>

definition fetch_fails :: "response \<Rightarrow> bool" where
  "fetch_fails r = (case fetchWeather r of Rejected e \<Rightarrow> True | Resolved v \<Rightarrow> False)"

section \<open>Substrings\<close>

text \<open>\<open>str_includes s p\<close> holds exactly when \<open>p\<close> is a contiguous part of \<open>s\<close>.\<close>

lemma starts_with_iff: "starts_with s p \<longleftrightarrow> (\<exists>b. s = p @ b)"
  by (induction s p rule: starts_with.induct) auto

lemma str_includes_iff: "str_includes s p \<longleftrightarrow> (\<exists>a b. s = a @ p @ b)"
proof (induction s)
  case Nil
  then show ?case by auto
next
  case (Cons c cs)
  note IH = Cons.IH
  show ?case
  proof
    assume "str_includes (c # cs) p"
    then consider "starts_with (c # cs) p" | "str_includes cs p" by auto
    then show "\<exists>a b. c # cs = a @ p @ b"
    proof cases
      case 1
      then obtain b where "c # cs = p @ b" by (auto simp: starts_with_iff)
      then have "c # cs = [] @ p @ b" by simp
      then show ?thesis by blast
    next
      case 2
      with IH obtain a b where "cs = a @ p @ b" by auto
      then have "c # cs = (c # a) @ p @ b" by simp
      then show ?thesis by blast
    qed
  next
    assume "\<exists>a b. c # cs = a @ p @ b"
    then obtain a b where ab: "c # cs = a @ p @ b" by auto
    show "str_includes (c # cs) p"
    proof (cases a)
      case Nil
      with ab have "starts_with (c # cs) p" by (auto simp: starts_with_iff)
      then show ?thesis by simp
    next
      case (Cons x a')
      with ab have "cs = a' @ p @ b" by simp
      with IH have "str_includes cs p" by blast
      then show ?thesis by simp
    qed
  qed
qed

section \<open>Rounding to a nearest double\<close>

text \<open>
  A finite result of \<open>fl\<close> is a multiple of the unit in the last place, at most half
  a unit away from the exact value.
\<close>

lemma round_half_even_nearest: "\<bar>of_int (round_half_even r) - r\<bar> \<le> 1/2"
proof -
  have "of_int \<lfloor>r\<rfloor> \<le> r" "r < of_int \<lfloor>r\<rfloor> + 1"
    by linarith+
  then show ?thesis
    by (auto simp: round_half_even_def Let_def abs_le_iff)
qed

lemma fl_nearest:
  assumes "fl x = Finite y"
  shows "\<exists>m. y = of_int m * 2 powi (ulp_exp x (- 1074))
           \<and> \<bar>y - x\<bar> \<le> 2 powi (ulp_exp x (- 1074)) / 2"
proof -
  define e where "e = ulp_exp x (- 1074)"
  define m where "m = round_half_even (x / 2 powi e)"
  have pos: "(0::rat) < 2 powi e"
    by (simp add: power_int_def)
  from assms have y: "y = of_int m * 2 powi e"
    by (simp add: fl_def Let_def e_def m_def split: if_splits)
  have "\<bar>of_int m - x / 2 powi e\<bar> \<le> 1/2"
    unfolding m_def by (rule round_half_even_nearest)
  then have "\<bar>of_int m - x / 2 powi e\<bar> * 2 powi e \<le> 1/2 * 2 powi e"
    using pos by (intro mult_right_mono) auto
  also have "\<bar>of_int m - x / 2 powi e\<bar> * 2 powi e = \<bar>(of_int m - x / 2 powi e) * 2 powi e\<bar>"
    using pos by (simp add: abs_mult)
  also have "(of_int m - x / 2 powi e) * 2 powi e = y - x"
    using pos by (simp add: y field_simps)
  finally have "\<bar>y - x\<bar> \<le> 2 powi e / 2" by simp
  with y show ?thesis unfolding e_def by blast
qed

section \<open>Evaluating the double arithmetic\<close>

text \<open>
  Rules that let the simplifier compute \<open>fl\<close> on a numeral: the floor of a quotient of
  numerals, and a search for the exponent that starts at \<open>-72\<close> for a value of magnitude
  \<open>2^-20\<close> or more and climbs eight steps at a time while it can. The tables that follow
  are computed with them: the adjusted rate of every branch of \<^verbatim>\<open>calculateRates\<close>, first
  as the code computes it, then as the rounding rule of the specification defines it.
\<close>

lemma floor_rat_numeral_div [simp]:
  "\<lfloor>(numeral a :: rat) / numeral b\<rfloor> = numeral a div numeral b"
  using floor_divide_of_int_eq [of "numeral a" "numeral b", where ?'a = rat] by simp

lemma floor_rat_neg_numeral_div [simp]:
  "\<lfloor>- ((numeral a :: rat) / numeral b)\<rfloor> = - numeral a div numeral b"
  using floor_divide_of_int_eq [of "- numeral a" "numeral b", where ?'a = rat] by simp

lemma ulp_exp_step:
  "lo < 971 \<Longrightarrow> 2 powi (lo + 53) \<le> \<bar>x\<bar> \<Longrightarrow> ulp_exp x lo = ulp_exp x (lo + 1)"
  by (subst ulp_exp.simps) simp

lemma ulp_exp_skip:
  "lo + int n \<le> 971 \<Longrightarrow> 2 powi (lo + 52 + int n) \<le> \<bar>x\<bar> \<Longrightarrow>
     ulp_exp x lo = ulp_exp x (lo + int n)"
proof (induction n arbitrary: lo)
  case 0
  then show ?case by simp
next
  case (Suc n)
  have "(2::rat) powi (lo + 53) \<le> 2 powi (lo + 52 + int (Suc n))"
    by (intro power_int_increasing) auto
  with Suc.prems have "ulp_exp x lo = ulp_exp x (lo + 1)"
    by (intro ulp_exp_step) auto
  also have "\<dots> = ulp_exp x (lo + 1 + int n)"
    using Suc.prems by (intro Suc.IH) (auto simp: algebra_simps)
  finally show ?case by (simp add: algebra_simps)
qed

lemma ulp_exp_search:
  "ulp_exp x lo =
     (if lo + 8 \<le> 971 \<and> 2 powi (lo + 60) \<le> \<bar>x\<bar> then ulp_exp x (lo + 8)
      else if 971 \<le> lo \<or> \<bar>x\<bar> < 2 powi (lo + 53) then lo
      else ulp_exp x (lo + 1))"
proof (cases "lo + 8 \<le> 971 \<and> 2 powi (lo + 60) \<le> \<bar>x\<bar>")
  case True
  then have "ulp_exp x lo = ulp_exp x (lo + int 8)"
    by (intro ulp_exp_skip) (auto simp: algebra_simps)
  with True show ?thesis by simp
next
  case False
  then show ?thesis by (subst ulp_exp.simps) auto
qed

lemma fl_small:
  "2 powi (- 20) \<le> \<bar>x\<bar> \<Longrightarrow> fl x =
     (let e = ulp_exp x (- 72);
          y = of_int (round_half_even (x / 2 powi e)) * 2 powi e
      in if 2 powi 1024 \<le> \<bar>y\<bar> then (if 0 < x then PosInf else NegInf) else Finite y)"
  using ulp_exp_skip [of "- 1074" 1002 x] by (simp add: fl_def)

lemma fl_0: "fl 0 = Finite 0"
  by (simp add: fl_def ulp_exp.simps [of 0] round_half_even_def)

lemmas fl_eval =
  lit_def fl_0 fl_small Let_def ulp_exp_search round_half_even_def round_def power_int_minus

lemma thresholds:
  "lit 85 = Finite 85" "lit 40 = Finite 40" "lit 65 = Finite 65" "lit 75 = Finite 75"
  "lit 32 = Finite 32" "lit 50 = Finite 50" "lit 80 = Finite 80" "lit 30 = Finite 30"
  by (simp_all add: fl_eval)

lemma electricity_rates:
  "num_div (Math_round (num_mul (num_add (lit (12/100)) (lit (4/100))) (lit 1000))) (lit 1000)
     = lit (16/100)"
  "num_div (Math_round (num_mul (num_add (lit (12/100)) (lit (3/100))) (lit 1000))) (lit 1000)
     = lit (15/100)"
  "num_div (Math_round (num_mul (num_add (lit (12/100)) (num_neg (lit (2/100)))) (lit 1000)))
     (lit 1000) = lit (10/100)"
  "num_div (Math_round (num_mul (num_add (lit (12/100)) (lit 0)) (lit 1000))) (lit 1000)
     = lit (12/100)"
  by (simp_all add: fl_eval)

lemma gas_rates:
  "num_div (Math_round (num_mul (num_add (lit (105/100)) (lit (45/100))) (lit 100))) (lit 100)
     = lit (150/100)"
  "num_div (Math_round (num_mul (num_add (lit (105/100)) (lit (25/100))) (lit 100))) (lit 100)
     = lit (130/100)"
  "num_div (Math_round (num_mul (num_add (lit (105/100)) (num_neg (lit (15/100)))) (lit 100)))
     (lit 100) = lit (90/100)"
  "num_div (Math_round (num_mul (num_add (lit (105/100)) (lit 0)) (lit 100))) (lit 100)
     = lit (105/100)"
  by (simp_all add: fl_eval)

lemma water_rates:
  "num_div (Math_round (num_mul (num_add (lit (4/1000)) (lit (2/1000))) (lit 10000)))
     (lit 10000) = lit (6/1000)"
  "num_div (Math_round (num_mul (num_add (lit (4/1000)) (num_neg (lit (1/1000)))) (lit 10000)))
     (lit 10000) = lit (3/1000)"
  "num_div (Math_round (num_mul (num_add (lit (4/1000)) (lit 0)) (lit 10000))) (lit 10000)
     = lit (4/1000)"
  by (simp_all add: fl_eval)

lemma solar_rates:
  "num_div (Math_round (num_mul (num_add (lit (8/100)) (lit (3/100))) (lit 1000))) (lit 1000)
     = lit (11/100)"
  "num_div (Math_round (num_mul (num_add (lit (8/100)) (num_neg (lit (2/100)))) (lit 1000)))
     (lit 1000) = lit (6/100)"
  "num_div (Math_round (num_mul (num_add (lit (8/100)) (num_neg (lit (4/100)))) (lit 1000)))
     (lit 1000) = lit (4/100)"
  "num_div (Math_round (num_mul (num_add (lit (8/100)) (lit 0)) (lit 1000))) (lit 1000)
     = lit (8/100)"
  by (simp_all add: fl_eval)

lemma electricity_decimals:
  "round_decimals 3 (lit (12/100)) (lit (4/100)) = lit (16/100)"
  "round_decimals 3 (lit (12/100)) (lit (3/100)) = lit (15/100)"
  "round_decimals 3 (lit (12/100)) (num_neg (lit (2/100))) = lit (10/100)"
  "round_decimals 3 (lit (12/100)) (lit 0) = lit (12/100)"
  by (simp_all add: fl_eval)

lemma gas_decimals:
  "round_decimals 2 (lit (105/100)) (lit (45/100)) = lit (150/100)"
  "round_decimals 2 (lit (105/100)) (lit (25/100)) = lit (130/100)"
  "round_decimals 2 (lit (105/100)) (num_neg (lit (15/100))) = lit (90/100)"
  "round_decimals 2 (lit (105/100)) (lit 0) = lit (105/100)"
  by (simp_all add: fl_eval)

lemma water_decimals:
  "round_decimals 4 (lit (4/1000)) (lit (2/1000)) = lit (6/1000)"
  "round_decimals 4 (lit (4/1000)) (num_neg (lit (1/1000))) = lit (3/1000)"
  "round_decimals 4 (lit (4/1000)) (lit 0) = lit (4/1000)"
  by (simp_all add: fl_eval)

lemma solar_decimals:
  "round_decimals 3 (lit (8/100)) (lit (3/100)) = lit (11/100)"
  "round_decimals 3 (lit (8/100)) (num_neg (lit (2/100))) = lit (6/100)"
  "round_decimals 3 (lit (8/100)) (num_neg (lit (4/100))) = lit (4/100)"
  "round_decimals 3 (lit (8/100)) (lit 0) = lit (8/100)"
  by (simp_all add: fl_eval)

section \<open>The rate table\<close>

text \<open>
  The four quotes of a reading, with the arithmetic carried out: one lemma for each
  utility, one branch for each row of its rule table.
\<close>

lemma calculateRates_quotes:
  "calculateRates w =
     [calculateRates w ! 0, calculateRates w ! 1, calculateRates w ! 2, calculateRates w ! 3]"
  by (simp add: calculateRates_def Let_def split_def)

lemma electricity_quote:
  "calculateRates w ! 0 =
     (if num_gt (temperature w) (lit 85) then
        \<lparr>utility = ''Electricity'', baseRate = lit (12/100), unit = ''kWh'',
         weatherAdjustment = lit (4/100), adjustedRate = lit (16/100),
         reason = ''High cooling demand due to heat''\<rparr>
      else if num_lt (temperature w) (lit 40) then
        \<lparr>utility = ''Electricity'', baseRate = lit (12/100), unit = ''kWh'',
         weatherAdjustment = lit (3/100), adjustedRate = lit (15/100),
         reason = ''Increased heating demand''\<rparr>
      else if num_ge (temperature w) (lit 65) \<and> num_le (temperature w) (lit 75) then
        \<lparr>utility = ''Electricity'', baseRate = lit (12/100), unit = ''kWh'',
         weatherAdjustment = num_neg (lit (2/100)), adjustedRate = lit (10/100),
         reason = ''Low HVAC demand - mild weather''\<rparr>
      else
        \<lparr>utility = ''Electricity'', baseRate = lit (12/100), unit = ''kWh'',
         weatherAdjustment = lit 0, adjustedRate = lit (12/100),
         reason = ''Standard rate''\<rparr>)"
  using electricity_rates by (simp add: calculateRates_def Let_def split_def baseRates_def)

lemma gas_quote:
  "calculateRates w ! 1 =
     (if num_lt (temperature w) (lit 32) then
        \<lparr>utility = ''Natural Gas'', baseRate = lit (105/100), unit = ''therm'',
         weatherAdjustment = lit (45/100), adjustedRate = lit (150/100),
         reason = ''Peak heating season - extreme cold''\<rparr>
      else if num_lt (temperature w) (lit 50) then
        \<lparr>utility = ''Natural Gas'', baseRate = lit (105/100), unit = ''therm'',
         weatherAdjustment = lit (25/100), adjustedRate = lit (130/100),
         reason = ''Heating demand increased''\<rparr>
      else if num_gt (temperature w) (lit 80) then
        \<lparr>utility = ''Natural Gas'', baseRate = lit (105/100), unit = ''therm'',
         weatherAdjustment = num_neg (lit (15/100)), adjustedRate = lit (90/100),
         reason = ''Reduced heating demand''\<rparr>
      else
        \<lparr>utility = ''Natural Gas'', baseRate = lit (105/100), unit = ''therm'',
         weatherAdjustment = lit 0, adjustedRate = lit (105/100),
         reason = ''Standard rate''\<rparr>)"
  using gas_rates by (simp add: calculateRates_def Let_def split_def baseRates_def)

lemma water_quote:
  "calculateRates w ! 2 =
     (if num_lt (humidity w) (lit 30) \<and> num_gt (temperature w) (lit 80) then
        \<lparr>utility = ''Water'', baseRate = lit (4/1000), unit = ''gallon'',
         weatherAdjustment = lit (2/1000), adjustedRate = lit (6/1000),
         reason = ''Drought surcharge - conservation pricing''\<rparr>
      else if str_includes (toLowerCase (conditions w)) ''rain'' then
        \<lparr>utility = ''Water'', baseRate = lit (4/1000), unit = ''gallon'',
         weatherAdjustment = num_neg (lit (1/1000)), adjustedRate = lit (3/1000),
         reason = ''Reduced irrigation demand''\<rparr>
      else
        \<lparr>utility = ''Water'', baseRate = lit (4/1000), unit = ''gallon'',
         weatherAdjustment = lit 0, adjustedRate = lit (4/1000),
         reason = ''Standard rate''\<rparr>)"
  using water_rates by (simp add: calculateRates_def Let_def split_def baseRates_def)

lemma solar_quote:
  "calculateRates w ! 3 =
     (if str_includes (toLowerCase (conditions w)) ''sunny''
         \<or> str_includes (toLowerCase (conditions w)) ''clear'' then
        \<lparr>utility = ''Solar Buyback'', baseRate = lit (8/100), unit = ''kWh'',
         weatherAdjustment = lit (3/100), adjustedRate = lit (11/100),
         reason = ''Peak solar production - premium buyback''\<rparr>
      else if str_includes (toLowerCase (conditions w)) ''cloud''
         \<or> str_includes (toLowerCase (conditions w)) ''overcast'' then
        \<lparr>utility = ''Solar Buyback'', baseRate = lit (8/100), unit = ''kWh'',
         weatherAdjustment = num_neg (lit (2/100)), adjustedRate = lit (6/100),
         reason = ''Reduced solar output''\<rparr>
      else if str_includes (toLowerCase (conditions w)) ''rain''
         \<or> str_includes (toLowerCase (conditions w)) ''storm'' then
        \<lparr>utility = ''Solar Buyback'', baseRate = lit (8/100), unit = ''kWh'',
         weatherAdjustment = num_neg (lit (4/100)), adjustedRate = lit (4/100),
         reason = ''Minimal solar production''\<rparr>
      else
        \<lparr>utility = ''Solar Buyback'', baseRate = lit (8/100), unit = ''kWh'',
         weatherAdjustment = lit 0, adjustedRate = lit (8/100),
         reason = ''Standard buyback rate''\<rparr>)"
  using solar_rates by (simp add: calculateRates_def Let_def split_def baseRates_def)

lemmas quote_table =
  electricity_quote gas_quote [unfolded One_nat_def] water_quote solar_quote

section \<open>The claims about the rate calculator\<close>

text \<open>
  Claim C1. For every weather reading, each of the four quotes has
  \<open>adjustedRate = round(baseRate + weatherAdjustment)\<close> at the precision of its utility:
  3 decimals for Electricity and Solar Buyback, 2 for Natural Gas, 4 for Water. The
  double arithmetic of the code, \<^verbatim>\<open>Math.round((rate + adjust) * 10^p) / 10^p\<close>, gives
  the very double that the exactly rounded decimal denotes.
\<close>

theorem adjusted_rate_is_rounded_sum:
  "map utility (calculateRates w) = [''Electricity'', ''Natural Gas'', ''Water'', ''Solar Buyback'']
   \<and> adjustedRate (calculateRates w ! 0) =
       round_decimals 3 (baseRate (calculateRates w ! 0)) (weatherAdjustment (calculateRates w ! 0))
   \<and> adjustedRate (calculateRates w ! 1) =
       round_decimals 2 (baseRate (calculateRates w ! 1)) (weatherAdjustment (calculateRates w ! 1))
   \<and> adjustedRate (calculateRates w ! 2) =
       round_decimals 4 (baseRate (calculateRates w ! 2)) (weatherAdjustment (calculateRates w ! 2))
   \<and> adjustedRate (calculateRates w ! 3) =
       round_decimals 3 (baseRate (calculateRates w ! 3)) (weatherAdjustment (calculateRates w ! 3))"
proof -
  have names: "map utility (calculateRates w) =
      [''Electricity'', ''Natural Gas'', ''Water'', ''Solar Buyback'']"
    by (subst calculateRates_quotes)
       (simp add: quote_table)
  have e: "adjustedRate (calculateRates w ! 0) =
      round_decimals 3 (baseRate (calculateRates w ! 0)) (weatherAdjustment (calculateRates w ! 0))"
    using electricity_decimals by (simp add: electricity_quote)
  have g: "adjustedRate (calculateRates w ! 1) =
      round_decimals 2 (baseRate (calculateRates w ! 1)) (weatherAdjustment (calculateRates w ! 1))"
    using gas_decimals by (simp add: quote_table)
  have wa: "adjustedRate (calculateRates w ! 2) =
      round_decimals 4 (baseRate (calculateRates w ! 2)) (weatherAdjustment (calculateRates w ! 2))"
    using water_decimals by (simp add: water_quote)
  have s: "adjustedRate (calculateRates w ! 3) =
      round_decimals 3 (baseRate (calculateRates w ! 3)) (weatherAdjustment (calculateRates w ! 3))"
    using solar_decimals by (simp add: solar_quote)
  from names e g wa s show ?thesis by blast
qed

text \<open>
  Claim C2. At a temperature of exactly 85 the rule \<^verbatim>\<open>temp > 85\<close> does not fire: the
  Electricity quote has the adjustment 0 and the reason \<^verbatim>\<open>Standard rate\<close>. At exactly 65
  and at exactly 75 the mild-weather rule fires: the adjustment is \<open>-0.02\<close> and the
  reason \<^verbatim>\<open>Low HVAC demand - mild weather\<close>.
\<close>

theorem electricity_boundaries:
  "utility (calculateRates w ! 0) = ''Electricity''
   \<and> (temperature w = lit 85 \<longrightarrow>
        weatherAdjustment (calculateRates w ! 0) = lit 0
        \<and> reason (calculateRates w ! 0) = ''Standard rate'')
   \<and> (temperature w = lit 65 \<or> temperature w = lit 75 \<longrightarrow>
        weatherAdjustment (calculateRates w ! 0) = num_neg (lit (2/100))
        \<and> reason (calculateRates w ! 0) = ''Low HVAC demand - mild weather'')"
  using thresholds
  by (auto simp: electricity_quote num_gt_def num_ge_def num_le_def)

theorem electricity_boundaries_witness:
  "weatherAdjustment
     (calculateRates \<lparr>city = ''austin'', temperature = lit 85, conditions = ''sunny'',
        humidity = lit 50\<rparr> ! 0) = lit 0
   \<and> reason
     (calculateRates \<lparr>city = ''austin'', temperature = lit 85, conditions = ''sunny'',
        humidity = lit 50\<rparr> ! 0) = ''Standard rate''
   \<and> weatherAdjustment
     (calculateRates \<lparr>city = ''austin'', temperature = lit 65, conditions = ''sunny'',
        humidity = lit 50\<rparr> ! 0) = num_neg (lit (2/100))
   \<and> weatherAdjustment
     (calculateRates \<lparr>city = ''austin'', temperature = lit 75, conditions = ''sunny'',
        humidity = lit 50\<rparr> ! 0) = num_neg (lit (2/100))"
  using
    electricity_boundaries [of "\<lparr>city = ''austin'', temperature = lit 85, conditions = ''sunny'',
      humidity = lit 50\<rparr>"]
    electricity_boundaries [of "\<lparr>city = ''austin'', temperature = lit 65, conditions = ''sunny'',
      humidity = lit 50\<rparr>"]
    electricity_boundaries [of "\<lparr>city = ''austin'', temperature = lit 75, conditions = ''sunny'',
      humidity = lit 50\<rparr>"]
  by simp

text \<open>
  Claim C3. The water rules are tried in order and the first match wins: with
  \<^verbatim>\<open>humidity < 30\<close> and \<^verbatim>\<open>temp > 80\<close> the Water quote has the adjustment \<open>+0.002\<close>,
  whatever the conditions say, rain included; the adjustment is \<open>-0.001\<close> exactly when
  the drought test fails and the lower-cased conditions contain \<^verbatim>\<open>rain\<close>.
\<close>

theorem water_rule_order:
  "utility (calculateRates w ! 2) = ''Water''
   \<and> (num_lt (humidity w) (lit 30) \<and> num_gt (temperature w) (lit 80) \<longrightarrow>
        weatherAdjustment (calculateRates w ! 2) = lit (2/1000))
   \<and> (weatherAdjustment (calculateRates w ! 2) = num_neg (lit (1/1000)) \<longleftrightarrow>
        \<not> (num_lt (humidity w) (lit 30) \<and> num_gt (temperature w) (lit 80))
        \<and> str_includes (toLowerCase (conditions w)) ''rain'')"
proof -
  have d: "lit (2/1000) \<noteq> num_neg (lit (1/1000))" "lit 0 \<noteq> num_neg (lit (1/1000))"
    by (simp_all add: fl_eval)
  then show ?thesis
    by (auto simp: water_quote)
qed

theorem water_rule_order_witness:
  "num_lt (lit 10) (lit 30) \<and> num_gt (lit 95) (lit 80)
   \<and> str_includes (toLowerCase ''Light Rain'') ''rain''
   \<and> weatherAdjustment
     (calculateRates \<lparr>city = ''phoenix'', temperature = lit 95, conditions = ''Light Rain'',
        humidity = lit 10\<rparr> ! 2) = lit (2/1000)"
proof -
  have cmp: "num_lt (lit 10) (lit 30)" "num_gt (lit 95) (lit 80)"
    by (simp_all add: fl_eval num_gt_def)
  have low: "str_includes (toLowerCase ''Light Rain'') ''rain''"
    by code_simp
  from cmp low
    water_rule_order [of "\<lparr>city = ''phoenix'', temperature = lit 95, conditions = ''Light Rain'',
      humidity = lit 10\<rparr>"]
  show ?thesis by simp
qed

text \<open>
  Claim C4. Solar Buyback tests \<^verbatim>\<open>cloud\<close> before \<^verbatim>\<open>rain\<close>: when the lower-cased
  conditions contain \<^verbatim>\<open>cloud\<close> and neither \<^verbatim>\<open>sunny\<close> nor \<^verbatim>\<open>clear\<close>, the adjustment is
  \<open>-0.02\<close>, also when they contain \<^verbatim>\<open>rain\<close>. For the reading with temperature 70,
  conditions \<^verbatim>\<open>cloudy, light rain\<close> and humidity 60 the adjusted rates are Electricity
  0.10, Natural Gas 1.05, Water 0.003 and Solar Buyback 0.06, the solar adjustment
  being \<open>-0.02\<close>.
\<close>

theorem solar_cloud_before_rain:
  "utility (calculateRates w ! 3) = ''Solar Buyback''
   \<and> (str_includes (toLowerCase (conditions w)) ''cloud''
        \<and> \<not> str_includes (toLowerCase (conditions w)) ''sunny''
        \<and> \<not> str_includes (toLowerCase (conditions w)) ''clear'' \<longrightarrow>
        weatherAdjustment (calculateRates w ! 3) = num_neg (lit (2/100)))
   \<and> map (\<lambda>q. (utility q, adjustedRate q))
         (calculateRates \<lparr>city = c, temperature = lit 70, conditions = ''cloudy, light rain'',
            humidity = lit 60\<rparr>) =
       [(''Electricity'', lit (10/100)), (''Natural Gas'', lit (105/100)),
        (''Water'', lit (3/1000)), (''Solar Buyback'', lit (6/100))]
   \<and> weatherAdjustment
         (calculateRates \<lparr>city = c, temperature = lit 70, conditions = ''cloudy, light rain'',
            humidity = lit 60\<rparr> ! 3) = num_neg (lit (2/100))"
proof -
  let ?w = "\<lparr>city = c, temperature = lit 70, conditions = ''cloudy, light rain'',
    humidity = lit 60\<rparr>"
  have low: "toLowerCase ''cloudy, light rain'' = ''cloudy, light rain''"
    by code_simp
  have t: "lit 70 = Finite 70" "lit 60 = Finite 60"
    by (simp_all add: fl_eval)
  have general: "utility (calculateRates w ! 3) = ''Solar Buyback''
      \<and> (str_includes (toLowerCase (conditions w)) ''cloud''
          \<and> \<not> str_includes (toLowerCase (conditions w)) ''sunny''
          \<and> \<not> str_includes (toLowerCase (conditions w)) ''clear'' \<longrightarrow>
          weatherAdjustment (calculateRates w ! 3) = num_neg (lit (2/100)))"
    by (simp add: solar_quote)
  have e: "calculateRates ?w ! 0 =
      \<lparr>utility = ''Electricity'', baseRate = lit (12/100), unit = ''kWh'',
       weatherAdjustment = num_neg (lit (2/100)), adjustedRate = lit (10/100),
       reason = ''Low HVAC demand - mild weather''\<rparr>"
    using thresholds t by (simp add: electricity_quote num_gt_def num_ge_def num_le_def)
  have g: "calculateRates ?w ! 1 =
      \<lparr>utility = ''Natural Gas'', baseRate = lit (105/100), unit = ''therm'',
       weatherAdjustment = lit 0, adjustedRate = lit (105/100), reason = ''Standard rate''\<rparr>"
    using thresholds t by (simp add: quote_table num_gt_def)
  have wa: "calculateRates ?w ! 2 =
      \<lparr>utility = ''Water'', baseRate = lit (4/1000), unit = ''gallon'',
       weatherAdjustment = num_neg (lit (1/1000)), adjustedRate = lit (3/1000),
       reason = ''Reduced irrigation demand''\<rparr>"
    using thresholds t low by (simp add: water_quote num_gt_def)
  have s: "calculateRates ?w ! 3 =
      \<lparr>utility = ''Solar Buyback'', baseRate = lit (8/100), unit = ''kWh'',
       weatherAdjustment = num_neg (lit (2/100)), adjustedRate = lit (6/100),
       reason = ''Reduced solar output''\<rparr>"
    using low by (simp add: solar_quote)
  have scenario: "map (\<lambda>q. (utility q, adjustedRate q)) (calculateRates ?w) =
      [(''Electricity'', lit (10/100)), (''Natural Gas'', lit (105/100)),
       (''Water'', lit (3/1000)), (''Solar Buyback'', lit (6/100))]"
    by (subst calculateRates_quotes) (simp add: e g [unfolded One_nat_def] wa s)
  from general scenario s show ?thesis by simp
qed

theorem solar_cloud_before_rain_witness:
  "str_includes (toLowerCase ''Partly Cloudy, Rain Showers'') ''cloud''
   \<and> str_includes (toLowerCase ''Partly Cloudy, Rain Showers'') ''rain''
   \<and> weatherAdjustment
       (calculateRates \<lparr>city = ''london'', temperature = lit 60,
          conditions = ''Partly Cloudy, Rain Showers'', humidity = lit 80\<rparr> ! 3)
       = num_neg (lit (2/100))"
proof -
  have low: "toLowerCase ''Partly Cloudy, Rain Showers'' = ''partly cloudy, rain showers''"
    by code_simp
  from low
    solar_cloud_before_rain [of "\<lparr>city = ''london'', temperature = lit 60,
      conditions = ''Partly Cloudy, Rain Showers'', humidity = lit 80\<rparr>"]
  show ?thesis by simp
qed

text \<open>
  Claim C5. For temperature 90, conditions \<^verbatim>\<open>sunny\<close>, humidity 20 the adjusted rates
  are Electricity 0.16, Natural Gas 0.90, Water 0.006 and Solar Buyback 0.11; for
  temperature 25, conditions \<^verbatim>\<open>clear\<close>, humidity 50 they are Electricity 0.15,
  Natural Gas 1.50, Water 0.004 and Solar Buyback 0.11.
\<close>

theorem scenarios_hot_and_cold:
  "map (\<lambda>q. (utility q, adjustedRate q))
     (calculateRates \<lparr>city = c, temperature = lit 90, conditions = ''sunny'',
        humidity = lit 20\<rparr>) =
     [(''Electricity'', lit (16/100)), (''Natural Gas'', lit (90/100)),
      (''Water'', lit (6/1000)), (''Solar Buyback'', lit (11/100))]
   \<and> map (\<lambda>q. (utility q, adjustedRate q))
     (calculateRates \<lparr>city = c, temperature = lit 25, conditions = ''clear'',
        humidity = lit 50\<rparr>) =
     [(''Electricity'', lit (15/100)), (''Natural Gas'', lit (150/100)),
      (''Water'', lit (4/1000)), (''Solar Buyback'', lit (11/100))]"
proof -
  have low: "toLowerCase ''sunny'' = ''sunny''" "toLowerCase ''clear'' = ''clear''"
    by code_simp+
  have t: "lit 90 = Finite 90" "lit 20 = Finite 20" "lit 25 = Finite 25"
    by (simp_all add: fl_eval)
  have hot: "map (\<lambda>q. (utility q, adjustedRate q))
     (calculateRates \<lparr>city = c, temperature = lit 90, conditions = ''sunny'',
        humidity = lit 20\<rparr>) =
     [(''Electricity'', lit (16/100)), (''Natural Gas'', lit (90/100)),
      (''Water'', lit (6/1000)), (''Solar Buyback'', lit (11/100))]"
    using thresholds t low
    by (subst calculateRates_quotes) (simp add: quote_table num_gt_def)
  have cold: "map (\<lambda>q. (utility q, adjustedRate q))
     (calculateRates \<lparr>city = c, temperature = lit 25, conditions = ''clear'',
        humidity = lit 50\<rparr>) =
     [(''Electricity'', lit (15/100)), (''Natural Gas'', lit (150/100)),
      (''Water'', lit (4/1000)), (''Solar Buyback'', lit (11/100))]"
    using thresholds t low
    by (subst calculateRates_quotes) (simp add: quote_table num_gt_def)
  from hot cold show ?thesis by simp
qed

text \<open>
  Claim C8. For every weather reading \<^verbatim>\<open>calculateRates\<close> returns exactly four quotes,
  in the order Electricity, Natural Gas, Water, Solar Buyback; the base rate and the
  unit of each are the entries of the table \<^verbatim>\<open>baseRates\<close> (0.12 per kWh, 1.05 per
  therm, 0.004 per gallon, 0.08 per kWh), whatever the weather.
\<close>

theorem quotes_order_and_base_rates:
  "length (calculateRates w) = 4
   \<and> map utility (calculateRates w) =
       [''Electricity'', ''Natural Gas'', ''Water'', ''Solar Buyback'']
   \<and> map baseRate (calculateRates w) =
       map rate [electricity baseRates, naturalGas baseRates, water baseRates, solar baseRates]
   \<and> map UtilityRate.unit (calculateRates w) =
       map RateEntry.unit
         [electricity baseRates, naturalGas baseRates, water baseRates, solar baseRates]
   \<and> map (\<lambda>entry. (rate entry, RateEntry.unit entry))
         [electricity baseRates, naturalGas baseRates, water baseRates, solar baseRates] =
       [(lit (12/100), ''kWh''), (lit (105/100), ''therm''), (lit (4/1000), ''gallon''),
        (lit (8/100), ''kWh'')]"
proof -
  have len: "length (calculateRates w) = 4"
    by (subst calculateRates_quotes) simp
  have names: "map utility (calculateRates w) =
      [''Electricity'', ''Natural Gas'', ''Water'', ''Solar Buyback'']"
    by (subst calculateRates_quotes) (simp add: quote_table)
  have base: "map baseRate (calculateRates w) =
      map rate [electricity baseRates, naturalGas baseRates, water baseRates, solar baseRates]"
    by (subst calculateRates_quotes) (simp add: quote_table baseRates_def)
  have units: "map UtilityRate.unit (calculateRates w) =
      map RateEntry.unit
        [electricity baseRates, naturalGas baseRates, water baseRates, solar baseRates]"
    by (subst calculateRates_quotes) (simp add: quote_table baseRates_def)
  have table: "map (\<lambda>entry. (rate entry, RateEntry.unit entry))
        [electricity baseRates, naturalGas baseRates, water baseRates, solar baseRates] =
      [(lit (12/100), ''kWh''), (lit (105/100), ''therm''), (lit (4/1000), ''gallon''),
       (lit (8/100), ''kWh'')]"
    by (simp add: baseRates_def)
  from len names base units table show ?thesis by blast
qed

section \<open>The claims about the weather client\<close>

lemma on_end_resolved:
  "on_end p = Resolved v \<longleftrightarrow> p = Some v \<and> (\<exists>e. get_error v = Inr e \<and> \<not> ToBoolean e)"
  by (auto simp: on_end_def try_block_def split: option.splits sum.splits if_splits)

lemma on_end_error_string:
  "map_of props ''error'' = Some (JStr m) \<Longrightarrow> m \<noteq> [] \<Longrightarrow>
     on_end (Some (JObj props)) = Rejected (Error m)"
  by (simp add: on_end_def try_block_def)

text \<open>
  Claim C6, as the code has it. The promise is resolved, with the parsed body, if and
  only if the body parses as JSON to a value other than \<^verbatim>\<open>null\<close> whose property
  \<^verbatim>\<open>error\<close> is missing or falsy. When that property is a non-empty string, the promise
  is rejected with an error that carries the string as its message. A body that is
  not valid JSON is rejected with \<^verbatim>\<open>Invalid response from weather service\<close>.
\<close>

theorem fetchWeather_resolves_iff:
  "(fetchWeather (EndEvent p) = Resolved v \<longleftrightarrow>
      p = Some v \<and> (\<exists>e. get_error v = Inr e \<and> \<not> ToBoolean e))
   \<and> (p = Some (JObj props) \<and> map_of props ''error'' = Some (JStr m) \<and> m \<noteq> [] \<longrightarrow>
        fetchWeather (EndEvent p) = Rejected (Error m))
   \<and> (p = None \<longrightarrow>
        fetchWeather (EndEvent p) = Rejected (Error ''Invalid response from weather service''))"
  using on_end_resolved [of p v] on_end_error_string [of props m]
  by (auto simp: on_end_def try_block_def)

theorem fetchWeather_resolves_iff_witness:
  "fetchWeather (EndEvent (Some (JObj [(''error'', JStr ''not found'')])))
     = Rejected (Error ''not found'')
   \<and> fetchWeather (EndEvent None) = Rejected (Error ''Invalid response from weather service'')"
  using
    fetchWeather_resolves_iff [of "Some (JObj [(''error'', JStr ''not found'')])" _
      "[(''error'', JStr ''not found'')]" "''not found''"]
    fetchWeather_resolves_iff [of None]
  by simp

text \<open>
  The claim as first stated, resolution if and only if the body parses and has no
  \<^verbatim>\<open>error\<close> field, fails in both directions: a reading that carries \<^verbatim>\<open>"error": null\<close>
  has the field and is resolved, and the body \<^verbatim>\<open>null\<close> has no such field and is
  rejected.
\<close>

theorem fetchWeather_error_field_counterexample:
  "has_error_field
     (JObj [(''city'', JStr ''paris''), (''temperature'', JNum (lit 70)),
            (''conditions'', JStr ''cloudy''), (''humidity'', JNum (lit 60)),
            (''error'', JNull)])
   \<and> fetchWeather (EndEvent (Some
     (JObj [(''city'', JStr ''paris''), (''temperature'', JNum (lit 70)),
            (''conditions'', JStr ''cloudy''), (''humidity'', JNum (lit 60)),
            (''error'', JNull)]))) =
     Resolved
     (JObj [(''city'', JStr ''paris''), (''temperature'', JNum (lit 70)),
            (''conditions'', JStr ''cloudy''), (''humidity'', JNum (lit 60)),
            (''error'', JNull)])
   \<and> \<not> has_error_field JNull
   \<and> fetchWeather (EndEvent (Some JNull)) =
     Rejected (Error ''Invalid response from weather service'')"
  by (simp add: on_end_def try_block_def)

text \<open>
  Claim C10. A body that is valid JSON can be rejected as an invalid response: for the
  body \<^verbatim>\<open>null\<close> the parse succeeds with the value \<^verbatim>\<open>null\<close>, the read of
  \<^verbatim>\<open>parsed.error\<close> throws a TypeError inside the \<^verbatim>\<open>try\<close> block, and the \<^verbatim>\<open>catch\<close>
  rejects with \<^verbatim>\<open>Invalid response from weather service\<close>, although the value has no
  \<^verbatim>\<open>error\<close> field.
\<close>

theorem null_body_is_invalid_response:
  "try_block (Some JNull) = Inl TypeError
   \<and> fetchWeather (EndEvent (Some JNull)) =
       Rejected (Error ''Invalid response from weather service'')
   \<and> \<not> has_error_field JNull"
  by (simp add: on_end_def try_block_def)

section \<open>The claim about purity\<close>

text \<open>
  The stateful model agrees with \<^verbatim>\<open>calculateRates\<close> and never writes the table; on a
  well-typed resolved value the function does not throw.
\<close>

lemma calculateRates_in_baseRates:
  "calculateRates_in baseRates w = (calculateRates w, baseRates)"
  by (simp add: calculateRates_in_def calculateRates_def Let_def split_def)

lemma calculateRates_in_state: "snd (calculateRates_in table w) = table"
  by (simp add: calculateRates_in_def Let_def split_def)

lemma calls_baseRates: "calls baseRates ws = (map calculateRates ws, baseRates)"
  by (induction ws) (simp_all add: calculateRates_in_baseRates)

lemma calculateRates_ignores_city:
  "calculateRates (w\<lparr>city := c\<rparr>) = calculateRates w"
  by (simp add: calculateRates_def)

lemma calculateRates_json_reading:
  assumes "as_reading v = Some w"
  shows "calculateRates_json v = Inr (calculateRates w)"
proof -
  from assms obtain c t s h where
    props: "get_prop v ''city'' = Some (JStr c)" "get_prop v ''temperature'' = Some (JNum t)"
      "get_prop v ''conditions'' = Some (JStr s)" "get_prop v ''humidity'' = Some (JNum h)"
    and w: "w = \<lparr>city = c, temperature = t, conditions = s, humidity = h\<rparr>"
    by (auto simp: as_reading_def split: option.splits json.splits)
  have "calculateRates \<lparr>city = [], temperature = t, conditions = s, humidity = h\<rparr> =
      calculateRates w"
    using calculateRates_ignores_city [where w = w and c = "[]"] by (simp add: w)
  with props show ?thesis
    by (simp add: calculateRates_json_def)
qed

text \<open>
  Claim C9. \<^verbatim>\<open>calculateRates\<close> is a pure, total and deterministic function. On a
  well-typed reading the call does not throw, where on another resolved value it can:
  it returns the four quotes of the reading. A call leaves the table of the module as
  it found it; so in a run of calls, each in the state that the one before it left,
  every call returns what \<^verbatim>\<open>calculateRates\<close> gives for its argument alone, and two calls
  with equal readings return equal quotes.
\<close>

theorem calculateRates_total_and_pure:
  "(as_reading v = Some w \<longrightarrow> calculateRates_json v = Inr (calculateRates w))
   \<and> length (calculateRates w) = 4
   \<and> snd (calculateRates_in table w) = table
   \<and> calls baseRates ws = (map calculateRates ws, baseRates)
   \<and> (i < length ws \<and> j < length ws \<and> ws ! i = ws ! j \<longrightarrow>
        fst (calls baseRates ws) ! i = fst (calls baseRates ws) ! j)"
proof -
  have "length (calculateRates w) = 4"
    by (subst calculateRates_quotes) simp
  then show ?thesis
    using calculateRates_json_reading [of v w]
    by (simp add: calls_baseRates calculateRates_in_state)
qed

theorem calculateRates_total_and_pure_witness:
  "as_reading
     (JObj [(''city'', JStr ''paris''), (''temperature'', JNum (lit 70)),
            (''conditions'', JStr ''cloudy''), (''humidity'', JNum (lit 60))]) =
     Some \<lparr>city = ''paris'', temperature = lit 70, conditions = ''cloudy'', humidity = lit 60\<rparr>
   \<and> calculateRates_json
     (JObj [(''city'', JStr ''paris''), (''temperature'', JNum (lit 70)),
            (''conditions'', JStr ''cloudy''), (''humidity'', JNum (lit 60))]) =
     Inr (calculateRates
       \<lparr>city = ''paris'', temperature = lit 70, conditions = ''cloudy'', humidity = lit 60\<rparr>)
   \<and> fst (calls baseRates
       [\<lparr>city = ''paris'', temperature = lit 70, conditions = ''cloudy'', humidity = lit 60\<rparr>,
        \<lparr>city = ''tokyo'', temperature = lit 90, conditions = ''sunny'', humidity = lit 20\<rparr>,
        \<lparr>city = ''paris'', temperature = lit 70, conditions = ''cloudy'', humidity = lit 60\<rparr>])
       ! 0 =
     fst (calls baseRates
       [\<lparr>city = ''paris'', temperature = lit 70, conditions = ''cloudy'', humidity = lit 60\<rparr>,
        \<lparr>city = ''tokyo'', temperature = lit 90, conditions = ''sunny'', humidity = lit 20\<rparr>,
        \<lparr>city = ''paris'', temperature = lit 70, conditions = ''cloudy'', humidity = lit 60\<rparr>])
       ! 2"
proof -
  let ?v = "JObj [(''city'', JStr ''paris''), (''temperature'', JNum (lit 70)),
    (''conditions'', JStr ''cloudy''), (''humidity'', JNum (lit 60))]"
  let ?w = "\<lparr>city = ''paris'', temperature = lit 70, conditions = ''cloudy'',
    humidity = lit 60\<rparr>"
  let ?ws = "[?w,
    \<lparr>city = ''tokyo'', temperature = lit 90, conditions = ''sunny'', humidity = lit 20\<rparr>, ?w]"
  have r: "as_reading ?v = Some ?w"
    by (simp add: as_reading_def)
  from r calculateRates_total_and_pure [of ?v ?w _ ?ws 0 2]
  show ?thesis by simp
qed

section \<open>The claim about the aggregation handler\<close>

lemma rates_loop_settled:
  "rates_loop (\<lambda>c. Some (f c)) cs acc = Some (acc @ List.map_filter (\<lambda>c. try_city (f c)) cs)"
  by (induction cs arbitrary: acc) (auto simp: List.map_filter_simps split: option.splits)

text \<open>A fetch that never settles leaves the handler without an answer.\<close>

lemma rates_loop_pending:
  "c \<in> set cs \<Longrightarrow> upstream c = None \<Longrightarrow> rates_loop upstream cs acc = None"
  by (induction cs arbitrary: acc) (auto split: option.splits)

lemma api_rates_pending:
  "c \<in> set cities \<Longrightarrow> upstream c = None \<Longrightarrow> api_rates now upstream = None"
  by (simp add: api_rates_def rates_loop_pending)

lemma try_city_None_iff:
  "try_city r = None \<longleftrightarrow>
     fetch_fails r \<or> (\<exists>v e. fetchWeather r = Resolved v \<and> calculateRates_json v = Inl e)"
  by (auto simp: try_city_def fetch_fails_def split: settled.splits sum.splits)

lemma try_city_reading:
  assumes "\<And>v. fetchWeather r = Resolved v \<Longrightarrow> as_reading v \<noteq> None"
  shows "try_city r = None \<longleftrightarrow> fetch_fails r"
proof (cases "fetchWeather r")
  case (Resolved v)
  with assms obtain w where "as_reading v = Some w" by auto
  then have "calculateRates_json v = Inr (calculateRates w)"
    by (rule calculateRates_json_reading)
  with Resolved show ?thesis
    by (simp add: try_city_def fetch_fails_def)
next
  case (Rejected e)
  then show ?thesis
    by (simp add: try_city_def fetch_fails_def)
qed

lemma length_entries:
  assumes "\<forall>c\<in>set cs. \<forall>v. fetchWeather (f c) = Resolved v \<longrightarrow> as_reading v \<noteq> None"
  shows "length (List.map_filter (\<lambda>c. try_city (f c)) cs) =
     length cs - length (filter (\<lambda>c. fetch_fails (f c)) cs)"
  using assms
proof (induction cs)
  case Nil
  then show ?case by (simp add: List.map_filter_simps)
next
  case (Cons c cs)
  then have "try_city (f c) = None \<longleftrightarrow> fetch_fails (f c)"
    by (intro try_city_reading) auto
  with Cons show ?case
    by (cases "try_city (f c)") (auto simp: List.map_filter_simps Suc_diff_le)
qed

text \<open>
  Claim C7, as the code has it. When every fetch settles, the handler goes through the
  five cities in their order and answers with one entry for each city whose \<^verbatim>\<open>try\<close>
  block reached its \<^verbatim>\<open>push\<close>, in the order of the city list, and with the time stamp:
  nothing tells of the cities left out. A city is left out when its fetch is rejected,
  and also when its fetch is resolved with a value on which \<^verbatim>\<open>calculateRates\<close> throws.
  When every resolved value is a well-typed reading and exactly \<open>k\<close> fetches are
  rejected, the response has \<open>5 - k\<close> quotes.
\<close>

theorem api_rates_skips_uncomputed:
  "api_rates now (\<lambda>c. Some (f c)) =
     Some \<lparr>quotes = List.map_filter (\<lambda>c. try_city (f c)) cities, generatedAt = now\<rparr>
   \<and> (try_city r = None \<longleftrightarrow>
        fetch_fails r
        \<or> (\<exists>v e. fetchWeather r = Resolved v \<and> calculateRates_json v = Inl e))
   \<and> ((\<forall>c\<in>set cities. \<forall>v. fetchWeather (f c) = Resolved v \<longrightarrow> as_reading v \<noteq> None)
        \<and> length (filter (\<lambda>c. fetch_fails (f c)) cities) = k \<longrightarrow>
        length (List.map_filter (\<lambda>c. try_city (f c)) cities) = 5 - k)"
proof -
  have "length cities = 5"
    by (simp add: cities_def)
  then show ?thesis
    using length_entries [of cities f] try_city_None_iff [of r]
    by (auto simp: api_rates_def rates_loop_settled)
qed

theorem api_rates_skips_uncomputed_witness:
  "length (filter (\<lambda>c. fetch_fails
       ((\<lambda>c. if c = ''london'' \<or> c = ''sydney'' then ErrorEvent (Error ''connect ECONNREFUSED'')
             else EndEvent (Some (JObj [(''city'', JStr c), (''temperature'', JNum (lit 70)),
               (''conditions'', JStr ''clear''), (''humidity'', JNum (lit 50))]))) c)) cities) = 2
   \<and> map_option (\<lambda>resp. map quote_city (quotes resp))
       (api_rates ''2026-01-01T00:00:00.000Z''
         (\<lambda>c. Some (if c = ''london'' \<or> c = ''sydney''
            then ErrorEvent (Error ''connect ECONNREFUSED'')
            else EndEvent (Some (JObj [(''city'', JStr c), (''temperature'', JNum (lit 70)),
              (''conditions'', JStr ''clear''), (''humidity'', JNum (lit 50))]))))) =
     Some [Some (JStr ''new-york''), Some (JStr ''tokyo''), Some (JStr ''paris'')]
   \<and> length (List.map_filter (\<lambda>c. try_city
       ((\<lambda>c. if c = ''london'' \<or> c = ''sydney'' then ErrorEvent (Error ''connect ECONNREFUSED'')
             else EndEvent (Some (JObj [(''city'', JStr c), (''temperature'', JNum (lit 70)),
               (''conditions'', JStr ''clear''), (''humidity'', JNum (lit 50))]))) c)) cities) = 3"
proof -
  let ?f = "\<lambda>c. if c = ''london'' \<or> c = ''sydney'' then ErrorEvent (Error ''connect ECONNREFUSED'')
    else EndEvent (Some (JObj [(''city'', JStr c), (''temperature'', JNum (lit 70)),
      (''conditions'', JStr ''clear''), (''humidity'', JNum (lit 50))]))"
  have failed: "length (filter (\<lambda>c. fetch_fails (?f c)) cities) = 2"
    by (simp add: cities_def fetch_fails_def on_end_def try_block_def)
  have readings: "\<forall>c\<in>set cities. \<forall>v. fetchWeather (?f c) = Resolved v \<longrightarrow> as_reading v \<noteq> None"
    by (auto simp: cities_def on_end_def try_block_def as_reading_def)
  have entries: "map quote_city (List.map_filter (\<lambda>c. try_city (?f c)) cities) =
      [Some (JStr ''new-york''), Some (JStr ''tokyo''), Some (JStr ''paris'')]"
    by (simp add: cities_def List.map_filter_simps try_city_def on_end_def try_block_def
        calculateRates_json_def)
  from failed readings entries
    api_rates_skips_uncomputed [of "''2026-01-01T00:00:00.000Z''" ?f _ 2]
  show ?thesis by simp
qed

text \<open>
  The claim as first stated, \<open>5 - k\<close> quotes whenever exactly \<open>k\<close> fetches fail, does not
  hold: with the body \<^verbatim>\<open>{}\<close> for london and the body \<^verbatim>\<open>42\<close> for tokyo no fetch fails,
  both values are resolved, \<^verbatim>\<open>calculateRates\<close> throws on each inside the \<^verbatim>\<open>try\<close> block,
  and the response has three quotes.
\<close>

theorem api_rates_no_failure_counterexample:
  "length (filter (\<lambda>c. fetch_fails
       ((\<lambda>c. if c = ''london'' then EndEvent (Some (JObj []))
             else if c = ''tokyo'' then EndEvent (Some (JNum (lit 42)))
             else EndEvent (Some (JObj [(''city'', JStr c), (''temperature'', JNum (lit 70)),
               (''conditions'', JStr ''clear''), (''humidity'', JNum (lit 50))]))) c)) cities) = 0
   \<and> map_option (\<lambda>resp. map quote_city (quotes resp))
       (api_rates ''2026-01-01T00:00:00.000Z''
         (\<lambda>c. Some (if c = ''london'' then EndEvent (Some (JObj []))
            else if c = ''tokyo'' then EndEvent (Some (JNum (lit 42)))
            else EndEvent (Some (JObj [(''city'', JStr c), (''temperature'', JNum (lit 70)),
              (''conditions'', JStr ''clear''), (''humidity'', JNum (lit 50))]))))) =
     Some [Some (JStr ''new-york''), Some (JStr ''sydney''), Some (JStr ''paris'')]"
  by (simp add: cities_def fetch_fails_def api_rates_def try_city_def on_end_def try_block_def
      calculateRates_json_def)

end
